theory Spec2Isabelle
  imports Main "HOL-Library.AList"
begin

section \<open>JavaScript values, objects and elements\<close>

text \<open>
  The values the component file handles. Numbers are restricted to integers (no NaN, no
  fractions); a function value is known by a name only; an object is the ordered list of
  its own enumerable fields. A JSX expression \<open><T a={x}>{c}</T>\<close> is the element
  \<open>JElem T [(a, x), (children, c)]\<close>: its type and its attribute list as written, the
  nested JSX being the attribute \<open>children\<close>.
\<close>

datatype jsval =
    JUndefined
  | JNull
  | JBool bool
  | JNum int
  | JStr string
  | JArr "jsval list"
  | JObj "(string \<times> jsval) list"
  | JFun string
  | JElem string "(string \<times> jsval) list"

type_synonym props = "(string \<times> jsval) list"

text \<open>JavaScript truthiness: \<open>undefined\<close>, \<open>null\<close>, \<open>false\<close>, \<open>0\<close> and the empty string are
  falsy, every array, object, function and element is truthy.\<close>

fun truthy :: "jsval \<Rightarrow> bool" where
  "truthy JUndefined = False"
| "truthy JNull = False"
| "truthy (JBool b) = b"
| "truthy (JNum n) = (n \<noteq> 0)"
| "truthy (JStr s) = (s \<noteq> [])"
| "truthy (JArr xs) = True"
| "truthy (JObj kvs) = True"
| "truthy (JFun f) = True"
| "truthy (JElem t ps) = True"

text \<open>\<open>a || b\<close> and \<open>a && b\<close>.\<close>

definition js_or :: "jsval \<Rightarrow> jsval \<Rightarrow> jsval" where
  "js_or a b = (if truthy a then a else b)"

definition js_and :: "jsval \<Rightarrow> jsval \<Rightarrow> jsval" where
  "js_and a b = (if truthy a then b else a)"

text \<open>\<open>props.k\<close>: reading a field that the object does not have gives \<open>undefined\<close>.\<close>

definition js_get :: "props \<Rightarrow> string \<Rightarrow> jsval" where
  "js_get ps k = (case map_of ps k of None \<Rightarrow> JUndefined | Some v \<Rightarrow> v)"

text \<open>\<open>{ ...o, k: v }\<close> is \<open>AList.update k v o\<close>: the field is overwritten in place when
  the object has it and appended otherwise. \<open>{ ...base, ...o }\<close> writes the fields of \<open>o\<close>
  over \<open>base\<close> one after the other.\<close>

definition spread :: "props \<Rightarrow> props \<Rightarrow> props" where
  "spread base ps = fold (\<lambda>(k, v). AList.update k v) ps base"

section \<open>The classnames dependency\<close>

fun show_nat :: "nat \<Rightarrow> string" where
  "show_nat n =
     (if n < 10 then [char_of (48 + n)]
      else show_nat (n div 10) @ [char_of (48 + n mod 10)])"

definition show_int :: "int \<Rightarrow> string" where
  "show_int i = (if i < 0 then CHR ''-'' # show_nat (nat (- i)) else show_nat (nat i))"

text \<open>\<open>Array.prototype.join\<close> on strings.\<close>

fun join :: "string \<Rightarrow> string list \<Rightarrow> string" where
  "join sep [] = []"
| "join sep [x] = x"
| "join sep (x # y # ys) = x @ sep @ join sep (y # ys)"

text \<open>
  What \<open>classNames\<close> pushes for one argument: nothing for a falsy argument, a string or a
  number as it is, the joined classes of a non-empty array when that is not empty, and for
  an object the names of its fields that hold a truthy value. A boolean \<open>true\<close> and a
  function match none of its branches. An element is an object with the fields
  \<open>$$typeof\<close>, \<open>type\<close>, \<open>key\<close>, \<open>ref\<close>, \<open>props\<close> and \<open>_owner\<close> (no owner is recorded here).
\<close>

fun classes :: "jsval \<Rightarrow> string list" where
  "classes JUndefined = []"
| "classes JNull = []"
| "classes (JBool b) = []"
| "classes (JNum n) = (if n = 0 then [] else [show_int n])"
| "classes (JStr s) = (if s = [] then [] else [s])"
| "classes (JArr xs) =
     (let inner = join '' '' (concat (map classes xs))
      in if inner = [] then [] else [inner])"
| "classes (JObj kvs) = map fst (filter (\<lambda>kv. truthy (snd kv)) kvs)"
| "classes (JFun f) = []"
| "classes (JElem t ps) =
     map fst (filter (\<lambda>kv. truthy (snd kv))
       [(''$$typeof'', JStr ''react.element''), (''type'', JStr t), (''key'', js_get ps ''key''),
        (''ref'', js_get ps ''ref''), (''props'', JObj ps), (''_owner'', JNull)])"

definition classnames :: "jsval list \<Rightarrow> string" where
  "classnames args = join '' '' (concat (map classes args))"

text \<open>The class tokens of a \<open>className\<close> string: its maximal runs of non-space characters.\<close>

fun tokens_acc :: "string \<Rightarrow> string \<Rightarrow> string list" where
  "tokens_acc cur [] = (if cur = [] then [] else [cur])"
| "tokens_acc cur (c # cs) =
     (if c = CHR '' '' then (if cur = [] then [] else [cur]) @ tokens_acc [] cs
      else tokens_acc (cur @ [c]) cs)"

definition class_tokens :: "string \<Rightarrow> string list" where
  "class_tokens s = tokens_acc [] s"

section \<open>Collaborators of the component file\<close>

text \<open>A block as the store returns it (its type name, its attributes and its child
  blocks; the identity is the id under which the store holds it), and a block type as the
  registry returns it. The \<open>providesContext\<close> mapping is the list of its
  (attribute name, context key) pairs.\<close>

datatype block = Block (name: string) (attributes: props) (innerBlocks: "block list")

record blockType =
  providesContext :: "(string \<times> string) list option"

text \<open>
  What one render reads from its surroundings: the client id of the block edit context,
  the result of \<open>useViewportMatch('medium', '<')\<close>, the object \<open>useRef()\<close> returns, the
  selectors of the \<open>core/block-editor\<close> store and the block type registry.
\<close>

record env =
  contextClientId :: jsval
  isSmallScreen :: bool
  fallbackRef :: jsval
  getBlock :: "jsval \<Rightarrow> block option"
  getBlockName :: "jsval \<Rightarrow> string option"
  isBlockSelected :: "jsval \<Rightarrow> bool"
  hasSelectedInnerBlock :: "jsval \<Rightarrow> bool \<Rightarrow> bool"
  isNavigationMode :: bool
  getBlockType :: "string \<Rightarrow> blockType option"

text \<open>The hooks with side effects that a render calls, in the order of the calls.\<close>

datatype hook_call =
    UseBlockSync props
  | UseNestedSettingsUpdate jsval jsval jsval jsval jsval
  | UseInnerBlockTemplateSync jsval jsval jsval jsval

datatype error = TypeError

text \<open>A render gives the hook calls it made and either the element it returns or the
  error it throws.\<close>

type_synonym rendered = "hook_call list \<times> (error + jsval)"

text \<open>Modelled from the spec: \<open>getBlockContext\<close> (get-block-context.js is not among the
  sources). For each (attribute name, context key) pair that the descriptor declares, the
  bag has the entry context key \<open>\<rightarrow>\<close> current value of the attribute; with no mapping the
  bag is empty.\<close>

definition getBlockContext :: "props \<Rightarrow> blockType \<Rightarrow> jsval" where
  "getBlockContext attrs bt =
     JObj (case providesContext bt of
             None \<Rightarrow> []
           | Some pc \<Rightarrow> map (\<lambda>(a, k). (k, js_get attrs a)) pc)"

section \<open>The components\<close>

record select_result =
  sel_block :: block
  hasOverlay :: bool
  enableClickThrough :: bool

text \<open>The \<open>useSelect\<close> callback of \<open>UncontrolledInnerBlocks\<close>: reading \<open>theBlock.name\<close>
  throws when the store has no block for the id.\<close>

definition UncontrolledInnerBlocks_select :: "env \<Rightarrow> jsval \<Rightarrow> error + select_result" where
  "UncontrolledInnerBlocks_select e clientId =
     (case getBlock e clientId of
        None \<Rightarrow> Inl TypeError
      | Some theBlock \<Rightarrow>
          Inr \<lparr> sel_block = theBlock,
                hasOverlay =
                  (name theBlock \<noteq> ''core/template'' \<and>
                   \<not> isBlockSelected e clientId \<and>
                   \<not> hasSelectedInnerBlock e clientId True),
                enableClickThrough = (isNavigationMode e \<or> isSmallScreen e) \<rparr>)"

text \<open>The context provider around an element, if (and only if) the block has context to
  provide.\<close>

definition wrapContext :: "env \<Rightarrow> block \<Rightarrow> jsval \<Rightarrow> jsval" where
  "wrapContext e b inner =
     (case getBlockType e (name b) of
        None \<Rightarrow> inner
      | Some bt \<Rightarrow>
          (case providesContext bt of
             None \<Rightarrow> inner
           | Some pc \<Rightarrow>
               JElem ''BlockContextProvider''
                 [(''value'', getBlockContext (attributes b) bt), (''children'', inner)]))"

definition UncontrolledInnerBlocks :: "env \<Rightarrow> props \<Rightarrow> rendered" where
  "UncontrolledInnerBlocks e ps =
     (let clientId = js_get ps ''clientId'';
          allowedBlocks = js_get ps ''allowedBlocks'';
          template = js_get ps ''template'';
          templateLock = js_get ps ''templateLock'';
          forwardedRef = js_get ps ''forwardedRef'';
          templateInsertUpdatesSelection = js_get ps ''templateInsertUpdatesSelection'';
          captureToolbars = js_get ps ''__experimentalCaptureToolbars'';
          orientation = js_get ps ''orientation''
      in case UncontrolledInnerBlocks_select e clientId of
           Inl err \<Rightarrow> ([], Inl err)
         | Inr r \<Rightarrow>
            (let hooks =
                   [UseNestedSettingsUpdate clientId allowedBlocks templateLock captureToolbars
                      orientation,
                    UseInnerBlockTemplateSync clientId template templateLock
                      templateInsertUpdatesSelection];
                 classes = classnames
                   [JObj [(''has-overlay'', JBool (enableClickThrough r \<and> hasOverlay r)),
                          (''is-capturing-toolbar'', captureToolbars)]];
                 blockList = JElem ''BlockList''
                   (AList.update ''className'' (JStr classes)
                     (AList.update ''rootClientId'' clientId
                       (AList.update ''ref'' forwardedRef ps)));
                 blockList' = wrapContext e (sel_block r) blockList
             in (hooks,
                 Inr (if truthy (js_get ps ''__experimentalTagName'') then blockList'
                      else JElem ''div''
                             [(''className'', JStr ''block-editor-inner-blocks''),
                              (''children'', blockList')]))))"

definition ControlledInnerBlocks :: "env \<Rightarrow> props \<Rightarrow> rendered" where
  "ControlledInnerBlocks e ps =
     (case UncontrolledInnerBlocks e ps of (hooks, out) \<Rightarrow> (UseBlockSync ps # hooks, out))"

text \<open>The default export: \<open>forwardRef( ( props, ref ) => ... )\<close>.\<close>

definition ForwardedInnerBlocks :: "env \<Rightarrow> props \<Rightarrow> jsval \<Rightarrow> rendered" where
  "ForwardedInnerBlocks e ps ref =
     (let clientId = contextClientId e;
          allProps = spread [(''clientId'', clientId),
                             (''forwardedRef'', js_or ref (fallbackRef e))] ps
      in if truthy (js_and (js_get ps ''value'') (js_get ps ''onChange''))
         then ControlledInnerBlocks e allProps
         else UncontrolledInnerBlocks e allProps)"

definition Uncontrolled :: "env \<Rightarrow> props \<Rightarrow> rendered" where
  "Uncontrolled e ps =
     (let clientId = js_get ps ''clientId'';
          allowedBlocks = js_get ps ''allowedBlocks'';
          template = js_get ps ''template'';
          templateLock = js_get ps ''templateLock'';
          wrapperRef = js_get ps ''wrapperRef'';
          templateInsertUpdatesSelection = js_get ps ''templateInsertUpdatesSelection'';
          captureToolbars = js_get ps ''__experimentalCaptureToolbars'';
          experimentalAppenderTagName = js_get ps ''__experimentalAppenderTagName'';
          renderAppender = js_get ps ''renderAppender'';
          orientation = js_get ps ''orientation'';
          hooks =
            [UseNestedSettingsUpdate clientId allowedBlocks templateLock captureToolbars
               orientation,
             UseInnerBlockTemplateSync clientId template templateLock
               templateInsertUpdatesSelection];
          blockListItems = JElem ''BlockListItems''
            [(''rootClientId'', clientId),
             (''renderAppender'', renderAppender),
             (''__experimentalAppenderTagName'', experimentalAppenderTagName),
             (''wrapperRef'', wrapperRef)]
      in case getBlock e clientId of
           None \<Rightarrow> (hooks, Inr blockListItems)
         | Some b \<Rightarrow> (hooks, Inr (wrapContext e b blockListItems)))"

definition InnerBlocks :: "env \<Rightarrow> props \<Rightarrow> rendered" where
  "InnerBlocks e ps =
     (let clientId = contextClientId e;
          ps' = AList.update ''clientId'' clientId ps
      in if truthy (js_and (js_get ps ''value'') (js_get ps ''onChange''))
         then ControlledInnerBlocks e ps'
         else Uncontrolled e ps')"

text \<open>The \<open>useSelect\<close> callback of \<open>useInnerBlocksProps\<close>; \<open>getBlockName\<close> gives no name for
  an id without a block, and no name differs from \<open>'core/template'\<close>.\<close>

definition useInnerBlocksProps_hasOverlay :: "env \<Rightarrow> bool" where
  "useInnerBlocksProps_hasOverlay e =
     (let clientId = contextClientId e
      in getBlockName e clientId \<noteq> Some ''core/template'' \<and>
         \<not> isBlockSelected e clientId \<and>
         \<not> hasSelectedInnerBlock e clientId True \<and>
         (isNavigationMode e \<or> isSmallScreen e))"

definition useInnerBlocksProps :: "env \<Rightarrow> props \<Rightarrow> props \<Rightarrow> props" where
  "useInnerBlocksProps e ps options =
     (let hasOverlay = useInnerBlocksProps_hasOverlay e;
          ref = js_or (js_get ps ''ref'') (fallbackRef e)
      in AList.update ''children''
           (JElem ''InnerBlocks'' (AList.update ''wrapperRef'' ref options))
           (AList.update ''className''
              (JStr (classnames [js_get ps ''className'',
                                 JStr ''block-editor-block-list__layout'',
                                 JObj [(''has-overlay'', JBool hasOverlay)]]))
              (AList.update ''ref'' ref ps)))"

text \<open>The element types around the nested list of a rendered element, outermost first:
  the chain from the root through \<open>children\<close> down to the list element.\<close>

fun scopes :: "jsval \<Rightarrow> string list" and scopes_in :: "props \<Rightarrow> string list" where
  "scopes (JElem t ps) =
     (if t = ''BlockList'' \<or> t = ''BlockListItems'' then [] else t # scopes_in ps)"
| "scopes JUndefined = []"
| "scopes JNull = []"
| "scopes (JBool b) = []"
| "scopes (JNum n) = []"
| "scopes (JStr s) = []"
| "scopes (JArr xs) = []"
| "scopes (JObj kvs) = []"
| "scopes (JFun f) = []"
| "scopes_in [] = []"
| "scopes_in (kv # kvs) = (if fst kv = ''children'' then scopes (snd kv) else scopes_in kvs)"

text \<open>The attributes of the nested list element itself.\<close>

fun nested_list :: "jsval \<Rightarrow> (string \<times> props) option"
  and nested_list_in :: "props \<Rightarrow> (string \<times> props) option" where
  "nested_list (JElem t ps) =
     (if t = ''BlockList'' \<or> t = ''BlockListItems'' then Some (t, ps) else nested_list_in ps)"
| "nested_list JUndefined = None"
| "nested_list JNull = None"
| "nested_list (JBool b) = None"
| "nested_list (JNum n) = None"
| "nested_list (JStr s) = None"
| "nested_list (JArr xs) = None"
| "nested_list (JObj kvs) = None"
| "nested_list (JFun f) = None"
| "nested_list_in [] = None"
| "nested_list_in (kv # kvs) =
     (if fst kv = ''children'' then nested_list (snd kv) else nested_list_in kvs)"

section \<open>The template synchronizer\<close>

datatype template_node = TemplateNode string props "template_node list"

datatype templateLock = LockAll | LockInsert | LockFalse

text \<open>Modelled from the spec: the block that a template node stands for, whether a block
  matches a node (type and nesting), and the reconciliation by position of a child list
  against a template (use-inner-block-template-sync.js and the template helpers are not
  among the sources).\<close>

fun synthesize :: "template_node \<Rightarrow> block" where
  "synthesize (TemplateNode n attrs ts) = Block n attrs (map synthesize ts)"

fun matches :: "block \<Rightarrow> template_node \<Rightarrow> bool" where
  "matches (Block n attrs bs) (TemplateNode tn tattrs ts) =
     (n = tn \<and> list_all2 matches bs ts)"

fun reconcile :: "block list \<Rightarrow> template_node list \<Rightarrow> block list" where
  "reconcile bs [] = []"
| "reconcile [] (t # ts) = synthesize t # reconcile [] ts"
| "reconcile (b # bs) (t # ts) = (if matches b t then b else synthesize t) # reconcile bs ts"

text \<open>The nested list of one root id as the synchronizer sees it: the template that this
  mounted instance last associated with the root id (none before the first encounter), the
  child blocks, and the number of child lists it has written to the store so far.\<close>

record sync_state =
  existingTemplate :: "template_node list option"
  innerList :: "block list"
  dispatched :: nat

text \<open>Modelled from the spec: the effect of \<open>useInnerBlockTemplateSync\<close>. On the first
  association of the root id with a non-empty template, children are synthesized when
  there are none, and existing children are left alone; afterwards only a changed template
  under the lock \<open>"all"\<close> re-derives the children.\<close>

definition templateSync :: "template_node list option \<Rightarrow> templateLock option \<Rightarrow> sync_state \<Rightarrow> sync_state" where
  "templateSync template lock s =
     (case template of
        None \<Rightarrow> s
      | Some t \<Rightarrow>
          (case existingTemplate s of
             None \<Rightarrow>
               if t = [] then s
               else if innerList s = []
               then s\<lparr> existingTemplate := Some t, innerList := map synthesize t,
                       dispatched := Suc (dispatched s) \<rparr>
               else s\<lparr> existingTemplate := Some t \<rparr>
           | Some prev \<Rightarrow>
               if lock = Some LockAll \<and> t \<noteq> prev
               then s\<lparr> existingTemplate := Some t, innerList := reconcile (innerList s) t,
                       dispatched := Suc (dispatched s) \<rparr>
               else s))"

text \<open>A mount starts a fresh instance of the hook, which remembers no template; a
  re-render keeps the instance.\<close>

datatype lifecycle = Mount | Rerender

fun lifecycle_step :: "template_node list option \<Rightarrow> templateLock option \<Rightarrow> lifecycle \<Rightarrow> sync_state \<Rightarrow> sync_state" where
  "lifecycle_step template lock Mount s = templateSync template lock (s\<lparr> existingTemplate := None \<rparr>)"
| "lifecycle_step template lock Rerender s = templateSync template lock s"

definition lifecycle_run :: "template_node list option \<Rightarrow> templateLock option \<Rightarrow> lifecycle list \<Rightarrow> sync_state \<Rightarrow> sync_state" where
  "lifecycle_run template lock evs s = fold (lifecycle_step template lock) evs s"

section \<open>Observations on a render\<close>

text \<open>A render is in controlled mode when it calls \<open>useBlockSync\<close>; it completes when it
  returns an element.\<close>

fun is_block_sync :: "hook_call \<Rightarrow> bool" where
  "is_block_sync (UseBlockSync ps) = True"
| "is_block_sync (UseNestedSettingsUpdate c a l t ori) = False"
| "is_block_sync (UseInnerBlockTemplateSync c t l u) = False"

definition controlled :: "rendered \<Rightarrow> bool" where
  "controlled r = list_ex is_block_sync (fst r)"

definition completes :: "rendered \<Rightarrow> bool" where
  "completes r = (case snd r of Inl err \<Rightarrow> False | Inr el \<Rightarrow> True)"

text \<open>The two calls that \<open>UncontrolledInnerBlocks\<close> (lines 71-84) and \<open>Uncontrolled\<close>
  (lines 167-180) make on the props \<open>ps\<close>: the settings propagator and the template
  synchronizer, for the same root id and with the same lock.\<close>

definition settings_call :: "props \<Rightarrow> hook_call" where
  "settings_call ps =
     UseNestedSettingsUpdate (js_get ps ''clientId'') (js_get ps ''allowedBlocks'')
       (js_get ps ''templateLock'') (js_get ps ''__experimentalCaptureToolbars'')
       (js_get ps ''orientation'')"

definition template_call :: "props \<Rightarrow> hook_call" where
  "template_call ps =
     UseInnerBlockTemplateSync (js_get ps ''clientId'') (js_get ps ''template'')
       (js_get ps ''templateLock'') (js_get ps ''templateInsertUpdatesSelection'')"

text \<open>
  The effects of the hooks are applied when the render is committed. \<open>useBlockSync\<close> is a
  hook of \<open>ControlledInnerBlocks\<close>; the other two are hooks of the component that it
  renders. React applies the effects of one component in the order of its hook calls, and
  the effects of a rendered component before those of the component that renders it. What
  an effect does to the editor state is a parameter.
\<close>

definition effect_order :: "hook_call list \<Rightarrow> hook_call list" where
  "effect_order hooks =
     filter (\<lambda>h. \<not> is_block_sync h) hooks @ filter is_block_sync hooks"

definition commit :: "(hook_call \<Rightarrow> 'st \<Rightarrow> 'st) \<Rightarrow> hook_call list \<Rightarrow> 'st \<Rightarrow> 'st" where
  "commit eff hooks st = fold eff (effect_order hooks) st"

text \<open>The state in which the effect of the template synchronizer is evaluated when the
  hooks are committed from the state \<open>st\<close>; none when the synchronizer was not called.\<close>

fun is_template_sync :: "hook_call \<Rightarrow> bool" where
  "is_template_sync (UseInnerBlockTemplateSync c t l u) = True"
| "is_template_sync (UseNestedSettingsUpdate c a l t ori) = False"
| "is_template_sync (UseBlockSync ps) = False"

fun state_seen :: "(hook_call \<Rightarrow> 'st \<Rightarrow> 'st) \<Rightarrow> hook_call list \<Rightarrow> 'st \<Rightarrow> 'st option" where
  "state_seen eff [] st = None"
| "state_seen eff (h # hs) st =
     (if is_template_sync h then Some st else state_seen eff hs (eff h st))"

definition synchronizer_sees :: "(hook_call \<Rightarrow> 'st \<Rightarrow> 'st) \<Rightarrow> hook_call list \<Rightarrow> 'st \<Rightarrow> 'st option" where
  "synchronizer_sees eff hooks st = state_seen eff (effect_order hooks) st"

text \<open>An input is supplied when the props hold a value for it (neither \<open>undefined\<close> nor
  \<open>null\<close>).\<close>

definition supplied :: "props \<Rightarrow> string \<Rightarrow> bool" where
  "supplied ps k = (js_get ps k \<noteq> JUndefined \<and> js_get ps k \<noteq> JNull)"

fun is_array :: "jsval \<Rightarrow> bool" where
  "is_array (JArr xs) = True"
| "is_array JUndefined = False"
| "is_array JNull = False"
| "is_array (JBool b) = False"
| "is_array (JNum n) = False"
| "is_array (JStr s) = False"
| "is_array (JObj kvs) = False"
| "is_array (JFun f) = False"
| "is_array (JElem t ps) = False"

fun is_function :: "jsval \<Rightarrow> bool" where
  "is_function (JFun f) = True"
| "is_function JUndefined = False"
| "is_function JNull = False"
| "is_function (JBool b) = False"
| "is_function (JNum n) = False"
| "is_function (JStr s) = False"
| "is_function (JArr xs) = False"
| "is_function (JObj kvs) = False"
| "is_function (JElem t ps) = False"

text \<open>The overlay state of a block, and the class tokens on the nested list element of a
  render.\<close>

definition overlay_active :: "env \<Rightarrow> jsval \<Rightarrow> bool" where
  "overlay_active e clientId =
     (case UncontrolledInnerBlocks_select e clientId of
        Inl err \<Rightarrow> False
      | Inr r \<Rightarrow> hasOverlay r)"

definition list_class_tokens :: "rendered \<Rightarrow> string list" where
  "list_class_tokens r =
     (case snd r of
        Inl err \<Rightarrow> []
      | Inr el \<Rightarrow>
          (case nested_list el of
             None \<Rightarrow> []
           | Some (t, a) \<Rightarrow>
               (case js_get a ''className'' of JStr c \<Rightarrow> class_tokens c | _ \<Rightarrow> [])))"

text \<open>The fields of an object value.\<close>

fun obj_fields :: "jsval \<Rightarrow> props" where
  "obj_fields (JObj kvs) = kvs"
| "obj_fields JUndefined = []"
| "obj_fields JNull = []"
| "obj_fields (JBool b) = []"
| "obj_fields (JNum n) = []"
| "obj_fields (JStr s) = []"
| "obj_fields (JArr xs) = []"
| "obj_fields (JFun f) = []"
| "obj_fields (JElem t ps) = []"

section \<open>A small editor\<close>

text \<open>Three blocks: a group that provides its attribute \<open>attrA\<close> as the context
  \<open>ns/keyA\<close>, a paragraph whose type provides no context, and a block of a type that is
  not registered. Nothing is selected, navigation mode is off, the viewport is wide.\<close>

definition demo_env :: env where
  "demo_env =
     \<lparr> contextClientId = JStr ''b1'',
       isSmallScreen = False,
       fallbackRef = JObj [(''current'', JUndefined)],
       getBlock = (\<lambda>c. if c = JStr ''b1'' then Some (Block ''core/group'' [(''attrA'', JStr ''x'')] [])
                      else if c = JStr ''b2'' then Some (Block ''core/paragraph'' [] [])
                      else if c = JStr ''b3'' then Some (Block ''acme/unknown'' [] [])
                      else None),
       getBlockName = (\<lambda>c. if c = JStr ''b1'' then Some ''core/group''
                      else if c = JStr ''b2'' then Some ''core/paragraph''
                      else if c = JStr ''b3'' then Some ''acme/unknown''
                      else None),
       isBlockSelected = (\<lambda>c. False),
       hasSelectedInnerBlock = (\<lambda>c deep. False),
       isNavigationMode = False,
       getBlockType = (\<lambda>n. if n = ''core/group''
                        then Some \<lparr> providesContext = Some [(''attrA'', ''ns/keyA'')] \<rparr>
                      else if n = ''core/paragraph'' then Some \<lparr> providesContext = None \<rparr>
                      else None) \<rparr>"

section \<open>Properties\<close>

subsection \<open>Objects and renders\<close>

lemma js_get_update: "js_get (AList.update k v ps) k' = (if k' = k then v else js_get ps k')"
  by (simp add: js_get_def update_conv')

lemma controlled_ControlledInnerBlocks: "controlled (ControlledInnerBlocks e ps)"
  by (simp add: controlled_def ControlledInnerBlocks_def split: prod.splits)

lemma not_controlled_UncontrolledInnerBlocks: "\<not> controlled (UncontrolledInnerBlocks e ps)"
  by (simp add: controlled_def UncontrolledInnerBlocks_def Let_def split: sum.splits)

lemma not_controlled_Uncontrolled: "\<not> controlled (Uncontrolled e ps)"
  by (simp add: controlled_def Uncontrolled_def Let_def split: option.splits)

lemma completes_Uncontrolled: "completes (Uncontrolled e ps)"
  by (simp add: completes_def Uncontrolled_def Let_def split: option.splits)

lemma completes_UncontrolledInnerBlocks:
  "completes (UncontrolledInnerBlocks e ps) \<longleftrightarrow> getBlock e (js_get ps ''clientId'') \<noteq> None"
  by (auto simp add: completes_def UncontrolledInnerBlocks_def UncontrolledInnerBlocks_select_def
      Let_def split: option.splits)

lemma completes_ControlledInnerBlocks:
  "completes (ControlledInnerBlocks e ps) = completes (UncontrolledInnerBlocks e ps)"
  by (simp add: completes_def ControlledInnerBlocks_def split: prod.splits)

lemma js_get_delete: "js_get (AList.delete k ps) k' = (if k' = k then JUndefined else js_get ps k')"
  by (simp add: js_get_def delete_conv')

lemma truthy_js_and: "truthy (js_and a b) \<longleftrightarrow> truthy a \<and> truthy b"
  by (simp add: js_and_def)

lemma controlled_ForwardedInnerBlocks:
  "controlled (ForwardedInnerBlocks e ps ref) \<longleftrightarrow>
     truthy (js_get ps ''value'') \<and> truthy (js_get ps ''onChange'')"
  by (simp add: ForwardedInnerBlocks_def Let_def truthy_js_and controlled_ControlledInnerBlocks
      not_controlled_UncontrolledInnerBlocks)

lemma controlled_InnerBlocks:
  "controlled (InnerBlocks e ps) \<longleftrightarrow>
     truthy (js_get ps ''value'') \<and> truthy (js_get ps ''onChange'')"
  by (simp add: InnerBlocks_def Let_def truthy_js_and controlled_ControlledInnerBlocks
      not_controlled_Uncontrolled)

lemma map_of_spread:
  "map_of (spread base ps) k = (case map_of (rev ps) k of None \<Rightarrow> map_of base k | Some v \<Rightarrow> Some v)"
  unfolding spread_def
proof (induction ps arbitrary: base)
  case Nil
  show ?case by simp
next
  case (Cons kv ps)
  show ?case
    by (cases kv) (auto simp add: Cons.IH update_conv' map_add_def split: option.splits)
qed

lemma rev_delete: "rev (AList.delete k ps) = AList.delete k (rev ps)"
  by (simp add: AList.delete_eq rev_filter)

lemma js_get_spread_delete:
  "k \<noteq> k' \<Longrightarrow> js_get (spread base (AList.delete k ps)) k' = js_get (spread base ps) k'"
  by (simp add: js_get_def map_of_spread rev_delete delete_conv')

lemma completes_ForwardedInnerBlocks:
  "completes (ForwardedInnerBlocks e ps ref) \<longleftrightarrow>
     getBlock e (js_get (spread [(''clientId'', contextClientId e),
                                (''forwardedRef'', js_or ref (fallbackRef e))] ps) ''clientId'') \<noteq> None"
  by (simp add: ForwardedInnerBlocks_def Let_def completes_ControlledInnerBlocks
      completes_UncontrolledInnerBlocks)

lemma completes_InnerBlocks_uncontrolled:
  "\<not> controlled (InnerBlocks e ps) \<Longrightarrow> completes (InnerBlocks e ps)"
  unfolding controlled_InnerBlocks
  by (auto simp add: InnerBlocks_def Let_def truthy_js_and completes_Uncontrolled)

subsection \<open>Mode selection\<close>

text \<open>
  C1. On every render, of the default export and of \<open>InnerBlocks\<close> alike, the list is in
  controlled mode if and only if that render's props hold a truthy \<open>value\<close> and a truthy
  \<open>onChange\<close>: for the inputs of the component, a block array and a change callback, if and
  only if both are supplied. The mode is a function of the props of the render alone: a
  render from which either input has been removed is uncontrolled. That render of
  \<open>InnerBlocks\<close> completes; that render of the default export completes when the store
  holds the block, and whenever the render with the input did.
\<close>

theorem mode_selected_per_render:
  "(controlled (ForwardedInnerBlocks e ps ref) \<longleftrightarrow>
      truthy (js_get ps ''value'') \<and> truthy (js_get ps ''onChange'')) \<and>
   (controlled (InnerBlocks e ps) \<longleftrightarrow>
      truthy (js_get ps ''value'') \<and> truthy (js_get ps ''onChange'')) \<and>
   ((supplied ps ''value'' \<longrightarrow> is_array (js_get ps ''value'')) \<and>
    (supplied ps ''onChange'' \<longrightarrow> is_function (js_get ps ''onChange'')) \<longrightarrow>
    (controlled (ForwardedInnerBlocks e ps ref) \<longleftrightarrow>
       supplied ps ''value'' \<and> supplied ps ''onChange'') \<and>
    (controlled (InnerBlocks e ps) \<longleftrightarrow>
       supplied ps ''value'' \<and> supplied ps ''onChange'')) \<and>
   (\<forall>k \<in> {''value'', ''onChange''}.
      \<not> controlled (ForwardedInnerBlocks e (AList.delete k ps) ref) \<and>
      \<not> controlled (InnerBlocks e (AList.delete k ps)) \<and>
      completes (InnerBlocks e (AList.delete k ps)) \<and>
      (completes (ForwardedInnerBlocks e ps ref) \<longrightarrow>
         completes (ForwardedInnerBlocks e (AList.delete k ps) ref)) \<and>
      (getBlock e (js_get (spread [(''clientId'', contextClientId e),
                                   (''forwardedRef'', js_or ref (fallbackRef e))] ps)
                     ''clientId'') \<noteq> None \<longrightarrow>
         completes (ForwardedInnerBlocks e (AList.delete k ps) ref)))"
proof -
  have typed: "truthy v \<longleftrightarrow> v \<noteq> JUndefined \<and> v \<noteq> JNull"
    if "v \<noteq> JUndefined \<and> v \<noteq> JNull \<longrightarrow> is_array v \<or> is_function v" for v
    using that by (cases v) auto
  have a: "truthy (js_get ps ''value'') \<longleftrightarrow> supplied ps ''value''"
    if "supplied ps ''value'' \<longrightarrow> is_array (js_get ps ''value'')"
    using that typed [of "js_get ps ''value''"] by (auto simp add: supplied_def)
  have b: "truthy (js_get ps ''onChange'') \<longleftrightarrow> supplied ps ''onChange''"
    if "supplied ps ''onChange'' \<longrightarrow> is_function (js_get ps ''onChange'')"
    using that typed [of "js_get ps ''onChange''"] by (auto simp add: supplied_def)
  have del: "\<not> controlled (ForwardedInnerBlocks e (AList.delete k ps) ref) \<and>
      \<not> controlled (InnerBlocks e (AList.delete k ps)) \<and>
      completes (InnerBlocks e (AList.delete k ps)) \<and>
      (completes (ForwardedInnerBlocks e ps ref) \<longrightarrow>
         completes (ForwardedInnerBlocks e (AList.delete k ps) ref)) \<and>
      (getBlock e (js_get (spread [(''clientId'', contextClientId e),
                                   (''forwardedRef'', js_or ref (fallbackRef e))] ps)
                     ''clientId'') \<noteq> None \<longrightarrow>
         completes (ForwardedInnerBlocks e (AList.delete k ps) ref))"
    if "k = ''value'' \<or> k = ''onChange''" for k
  proof -
    have n1: "\<not> controlled (ForwardedInnerBlocks e (AList.delete k ps) ref)"
      using that by (auto simp add: controlled_ForwardedInnerBlocks js_get_delete)
    have n2: "\<not> controlled (InnerBlocks e (AList.delete k ps))"
      using that by (auto simp add: controlled_InnerBlocks js_get_delete)
    have "k \<noteq> ''clientId''" using that by auto
    then have c: "completes (ForwardedInnerBlocks e ps ref) \<longrightarrow>
         completes (ForwardedInnerBlocks e (AList.delete k ps) ref)"
      and d: "getBlock e (js_get (spread [(''clientId'', contextClientId e),
                                   (''forwardedRef'', js_or ref (fallbackRef e))] ps)
                     ''clientId'') \<noteq> None \<longrightarrow>
         completes (ForwardedInnerBlocks e (AList.delete k ps) ref)"
      by (simp_all add: completes_ForwardedInnerBlocks js_get_spread_delete)
    from n1 n2 c d completes_InnerBlocks_uncontrolled [OF n2] show ?thesis by simp
  qed
  show ?thesis
    using a b del
    by (simp add: controlled_ForwardedInnerBlocks controlled_InnerBlocks)
qed

theorem mode_selected_per_render_witness:
  "getBlock demo_env
     (js_get (spread [(''clientId'', contextClientId demo_env),
                      (''forwardedRef'', js_or JNull (fallbackRef demo_env))]
                [(''value'', JArr []), (''onChange'', JFun ''setBlocks'')]) ''clientId'') \<noteq> None \<and>
   supplied [(''value'', JArr []), (''onChange'', JFun ''setBlocks'')] ''value'' \<and>
   supplied [(''value'', JArr []), (''onChange'', JFun ''setBlocks'')] ''onChange'' \<and>
   controlled (ForwardedInnerBlocks demo_env
      [(''value'', JArr []), (''onChange'', JFun ''setBlocks'')] JNull) \<and>
   controlled (InnerBlocks demo_env [(''value'', JArr []), (''onChange'', JFun ''setBlocks'')]) \<and>
   \<not> controlled (ForwardedInnerBlocks demo_env [(''onChange'', JFun ''setBlocks'')] JNull) \<and>
   completes (ForwardedInnerBlocks demo_env [(''onChange'', JFun ''setBlocks'')] JNull) \<and>
   \<not> controlled (InnerBlocks demo_env [(''value'', JArr [])]) \<and>
   completes (InnerBlocks demo_env [(''value'', JArr [])])"
proof -
  let ?ps = "[(''value'', JArr []), (''onChange'', JFun ''setBlocks'')]"
  have c: "completes (ForwardedInnerBlocks demo_env ?ps JNull)"
    by (simp add: completes_def ForwardedInnerBlocks_def ControlledInnerBlocks_def
        UncontrolledInnerBlocks_def UncontrolledInnerBlocks_select_def Let_def spread_def
        js_get_def js_and_def js_or_def demo_env_def)
  have s: "supplied ?ps ''value''" "supplied ?ps ''onChange''"
    "is_array (js_get ?ps ''value'')" "is_function (js_get ?ps ''onChange'')"
    by (simp_all add: supplied_def js_get_def)
  have d: "AList.delete ''value'' ?ps = [(''onChange'', JFun ''setBlocks'')]"
    "AList.delete ''onChange'' ?ps = [(''value'', JArr [])]"
    by (simp_all add: AList.delete_eq)
  have g: "getBlock demo_env
     (js_get (spread [(''clientId'', contextClientId demo_env),
                      (''forwardedRef'', js_or JNull (fallbackRef demo_env))] ?ps) ''clientId'') \<noteq> None"
    by (simp add: spread_def js_get_def js_or_def demo_env_def)
  from mode_selected_per_render [of demo_env ?ps JNull] c s d
  have "controlled (ForwardedInnerBlocks demo_env ?ps JNull) \<and>
   controlled (InnerBlocks demo_env ?ps) \<and>
   \<not> controlled (ForwardedInnerBlocks demo_env [(''onChange'', JFun ''setBlocks'')] JNull) \<and>
   completes (ForwardedInnerBlocks demo_env [(''onChange'', JFun ''setBlocks'')] JNull) \<and>
   \<not> controlled (InnerBlocks demo_env [(''value'', JArr [])]) \<and>
   completes (InnerBlocks demo_env [(''value'', JArr [])])"
    by (simp add: js_get_def)
  with g s(1,2) show ?thesis by (intro conjI) simp_all
qed

text \<open>
  C9. The selection tests the truthiness of \<open>value\<close> and \<open>onChange\<close>, not the presence of
  the keys: when the props have the key \<open>value\<close> with a falsy value, or the key
  \<open>onChange\<close> with a falsy value, both entry points render the uncontrolled component.
\<close>

theorem falsy_inputs_run_uncontrolled:
  assumes "(\<exists>v. map_of ps ''value'' = Some v \<and> \<not> truthy v) \<or>
           (\<exists>f. map_of ps ''onChange'' = Some f \<and> \<not> truthy f)"
  shows "ForwardedInnerBlocks e ps ref =
           UncontrolledInnerBlocks e
             (spread [(''clientId'', contextClientId e),
                      (''forwardedRef'', js_or ref (fallbackRef e))] ps) \<and>
         InnerBlocks e ps = Uncontrolled e (AList.update ''clientId'' (contextClientId e) ps) \<and>
         \<not> controlled (ForwardedInnerBlocks e ps ref) \<and>
         \<not> controlled (InnerBlocks e ps)"
proof -
  from assms have f: "\<not> truthy (js_and (js_get ps ''value'') (js_get ps ''onChange''))"
    by (auto simp add: js_get_def truthy_js_and)
  show ?thesis
    by (simp add: ForwardedInnerBlocks_def InnerBlocks_def Let_def f
        not_controlled_UncontrolledInnerBlocks not_controlled_Uncontrolled)
qed

theorem falsy_inputs_run_uncontrolled_witness:
  "map_of [(''value'', JArr []), (''onChange'', JNull)] ''onChange'' = Some JNull \<and>
   \<not> truthy JNull \<and>
   \<not> controlled (ForwardedInnerBlocks demo_env
        [(''value'', JArr []), (''onChange'', JNull)] JNull) \<and>
   \<not> controlled (InnerBlocks demo_env [(''value'', JArr []), (''onChange'', JNull)])"
proof -
  have h: "(\<exists>v. map_of [(''value'', JArr []), (''onChange'', JNull)] ''value'' = Some v
              \<and> \<not> truthy v) \<or>
           (\<exists>f. map_of [(''value'', JArr []), (''onChange'', JNull)] ''onChange'' = Some f
              \<and> \<not> truthy f)"
    by simp
  from falsy_inputs_run_uncontrolled [OF h, of demo_env JNull]
  have "\<not> controlled (ForwardedInnerBlocks demo_env
        [(''value'', JArr []), (''onChange'', JNull)] JNull)"
    and "\<not> controlled (InnerBlocks demo_env
        [(''value'', JArr []), (''onChange'', JNull)])"
    by blast+
  then show ?thesis by simp
qed

subsection \<open>Class names and the overlay\<close>

lemma tokens_acc_space:
  "tokens_acc cur (xs @ CHR '' '' # ys) = tokens_acc cur xs @ tokens_acc [] ys"
  by (induction xs arbitrary: cur) simp_all

lemma class_tokens_join:
  "class_tokens (join '' '' xs) = concat (map class_tokens xs)"
proof (induction "'' ''" xs rule: join.induct)
  case 1
  show ?case by (simp add: class_tokens_def)
next
  case (2 x)
  show ?case by simp
next
  case (3 x y ys)
  have "class_tokens (x @ CHR '' '' # join '' '' (y # ys))
        = class_tokens x @ class_tokens (join '' '' (y # ys))"
    unfolding class_tokens_def by (rule tokens_acc_space)
  with 3 show ?case by simp
qed

lemma class_tokens_classnames:
  "class_tokens (classnames args) = concat (map class_tokens (concat (map classes args)))"
  by (simp add: classnames_def class_tokens_join)

lemma class_tokens_layout:
  "class_tokens ''block-editor-block-list__layout'' = [''block-editor-block-list__layout'']"
  by (simp add: class_tokens_def)

lemma class_tokens_has_overlay: "class_tokens ''has-overlay'' = [''has-overlay'']"
  by (simp add: class_tokens_def)

lemma class_tokens_capturing:
  "class_tokens ''is-capturing-toolbar'' = [''is-capturing-toolbar'']"
  by (simp add: class_tokens_def)

lemma nested_list_wrapContext:
  "nested_list (wrapContext e b (JElem ''BlockList'' a)) = Some (''BlockList'', a)"
  by (simp add: wrapContext_def split: option.splits)

lemma select_present:
  "getBlock e cid = Some b \<Longrightarrow>
   UncontrolledInnerBlocks_select e cid =
     Inr \<lparr> sel_block = b,
           hasOverlay = (name b \<noteq> ''core/template'' \<and> \<not> isBlockSelected e cid \<and>
                         \<not> hasSelectedInnerBlock e cid True),
           enableClickThrough = (isNavigationMode e \<or> isSmallScreen e) \<rparr>"
  by (simp add: UncontrolledInnerBlocks_select_def)

lemma list_class_tokens_UncontrolledInnerBlocks:
  assumes "getBlock e (js_get ps ''clientId'') = Some b"
  shows "list_class_tokens (UncontrolledInnerBlocks e ps) =
           (if (isNavigationMode e \<or> isSmallScreen e) \<and> overlay_active e (js_get ps ''clientId'')
            then [''has-overlay''] else []) @
           (if truthy (js_get ps ''__experimentalCaptureToolbars'')
            then [''is-capturing-toolbar''] else [])"
  using assms
  by (simp add: list_class_tokens_def UncontrolledInnerBlocks_def Let_def select_present
      overlay_active_def nested_list_wrapContext js_get_update class_tokens_classnames
      class_tokens_has_overlay class_tokens_capturing)

text \<open>
  C2. For a block that the store holds under an id, the overlay state is active if and only
  if the block's type name is not \<open>core/template\<close>, the block is not selected and no
  descendant of it (deep) is selected; click-through is enabled if and only if navigation
  mode is active or the viewport is below the medium breakpoint. The flag that
  \<open>useInnerBlocksProps\<close> computes for the block of the edit context is the conjunction of
  the two.
\<close>

theorem overlay_state_iff:
  assumes "getBlock e cid = Some b"
  shows "(overlay_active e cid \<longleftrightarrow>
            name b \<noteq> ''core/template'' \<and> \<not> isBlockSelected e cid \<and>
            \<not> hasSelectedInnerBlock e cid True) \<and>
         (\<exists>r. UncontrolledInnerBlocks_select e cid = Inr r \<and>
              (hasOverlay r \<longleftrightarrow> overlay_active e cid) \<and>
              (enableClickThrough r \<longleftrightarrow> isNavigationMode e \<or> isSmallScreen e)) \<and>
         (contextClientId e = cid \<and> getBlockName e cid = Some (name b) \<longrightarrow>
            (useInnerBlocksProps_hasOverlay e \<longleftrightarrow>
               overlay_active e cid \<and> (isNavigationMode e \<or> isSmallScreen e))) \<and>
         (useInnerBlocksProps_hasOverlay e \<longleftrightarrow>
            (getBlockName e (contextClientId e) \<noteq> Some ''core/template'' \<and>
             \<not> isBlockSelected e (contextClientId e) \<and>
             \<not> hasSelectedInnerBlock e (contextClientId e) True) \<and>
            (isNavigationMode e \<or> isSmallScreen e))"
  using assms
  by (auto simp add: overlay_active_def select_present useInnerBlocksProps_hasOverlay_def Let_def)

theorem overlay_state_iff_witness:
  "getBlock demo_env (JStr ''b1'') = Some (Block ''core/group'' [(''attrA'', JStr ''x'')] []) \<and>
   overlay_active demo_env (JStr ''b1'') \<and>
   \<not> useInnerBlocksProps_hasOverlay demo_env"
proof -
  have h: "getBlock demo_env (JStr ''b1'') = Some (Block ''core/group'' [(''attrA'', JStr ''x'')] [])"
    by (simp add: demo_env_def)
  have n: "\<not> isNavigationMode demo_env" "\<not> isSmallScreen demo_env"
    "contextClientId demo_env = JStr ''b1''" "getBlockName demo_env (JStr ''b1'') = Some ''core/group''"
    "\<not> isBlockSelected demo_env (JStr ''b1'')" "\<not> hasSelectedInnerBlock demo_env (JStr ''b1'') True"
    by (simp_all add: demo_env_def)
  from overlay_state_iff [OF h] n h show ?thesis by simp
qed

text \<open>
  C3, as stated, fails: with navigation mode off on a wide viewport the overlay state of an
  unselected group block is active, and the class names of its nested list do not include
  \<open>has-overlay\<close>.
\<close>

theorem has_overlay_class_counterexample:
  "overlay_active demo_env (JStr ''b1'') \<and>
   ''has-overlay'' \<notin> set (list_class_tokens
      (UncontrolledInnerBlocks demo_env [(''clientId'', JStr ''b1'')]))"
  by (simp add: overlay_active_def list_class_tokens_def UncontrolledInnerBlocks_def
      UncontrolledInnerBlocks_select_def wrapContext_def getBlockContext_def Let_def
      js_get_def classnames_def class_tokens_def demo_env_def)

text \<open>
  C3, amended. When the render completes, the class names of the nested list element
  include \<open>has-overlay\<close> exactly when the overlay state is active and click-through is
  enabled (navigation mode, or a viewport below the medium breakpoint), and
  \<open>is-capturing-toolbar\<close> exactly when the capture-toolbars flag is set.
\<close>

theorem list_classes_when_click_through:
  assumes "getBlock e (js_get ps ''clientId'') = Some b"
  shows "(''has-overlay'' \<in> set (list_class_tokens (UncontrolledInnerBlocks e ps)) \<longleftrightarrow>
            overlay_active e (js_get ps ''clientId'') \<and>
            (isNavigationMode e \<or> isSmallScreen e)) \<and>
         (''is-capturing-toolbar'' \<in> set (list_class_tokens (UncontrolledInnerBlocks e ps)) \<longleftrightarrow>
            truthy (js_get ps ''__experimentalCaptureToolbars''))"
  by (auto simp add: list_class_tokens_UncontrolledInnerBlocks [OF assms])

theorem list_classes_when_click_through_witness:
  "getBlock (demo_env\<lparr> isNavigationMode := True \<rparr>)
     (js_get [(''clientId'', JStr ''b1''), (''__experimentalCaptureToolbars'', JBool True)] ''clientId'')
     = Some (Block ''core/group'' [(''attrA'', JStr ''x'')] []) \<and>
   ''has-overlay'' \<in> set (list_class_tokens (UncontrolledInnerBlocks
      (demo_env\<lparr> isNavigationMode := True \<rparr>)
      [(''clientId'', JStr ''b1''), (''__experimentalCaptureToolbars'', JBool True)])) \<and>
   ''is-capturing-toolbar'' \<in> set (list_class_tokens (UncontrolledInnerBlocks
      (demo_env\<lparr> isNavigationMode := True \<rparr>)
      [(''clientId'', JStr ''b1''), (''__experimentalCaptureToolbars'', JBool True)]))"
proof -
  let ?e = "demo_env\<lparr> isNavigationMode := True \<rparr>"
  let ?ps = "[(''clientId'', JStr ''b1''), (''__experimentalCaptureToolbars'', JBool True)]"
  have h: "getBlock ?e (js_get ?ps ''clientId'') = Some (Block ''core/group'' [(''attrA'', JStr ''x'')] [])"
    by (simp add: demo_env_def js_get_def)
  have o: "overlay_active ?e (js_get ?ps ''clientId'')" "isNavigationMode ?e"
    "truthy (js_get ?ps ''__experimentalCaptureToolbars'')"
    by (simp_all add: overlay_active_def UncontrolledInnerBlocks_select_def demo_env_def js_get_def)
  from list_classes_when_click_through [OF h] o h show ?thesis by simp
qed

text \<open>
  C4. With no block in the store for the id of the edit context, the default export does not
  render the nested list: reading the name of the absent block throws. \<open>InnerBlocks\<close>, on
  the same input, renders the bare list.
\<close>

theorem absent_block_throws:
  "ForwardedInnerBlocks (demo_env\<lparr> contextClientId := JStr ''gone'' \<rparr>) [] JNull
     = ([], Inl TypeError) \<and>
   snd (InnerBlocks (demo_env\<lparr> contextClientId := JStr ''gone'' \<rparr>) [])
     = Inr (JElem ''BlockListItems''
              [(''rootClientId'', JStr ''gone''), (''renderAppender'', JUndefined),
               (''__experimentalAppenderTagName'', JUndefined), (''wrapperRef'', JUndefined)])"
  by (simp add: ForwardedInnerBlocks_def InnerBlocks_def Uncontrolled_def
      UncontrolledInnerBlocks_def UncontrolledInnerBlocks_select_def Let_def spread_def
      js_get_def js_and_def js_or_def demo_env_def)

subsection \<open>The context provider\<close>

lemma wrapContext_none:
  "getBlockType e (name b) = None \<or>
   (\<exists>bt. getBlockType e (name b) = Some bt \<and> providesContext bt = None) \<Longrightarrow>
   wrapContext e b inner = inner"
  by (auto simp add: wrapContext_def)

lemma wrapContext_some:
  "getBlockType e (name b) = Some bt \<Longrightarrow> providesContext bt = Some pc \<Longrightarrow>
   wrapContext e b inner =
     JElem ''BlockContextProvider''
       [(''value'', getBlockContext (attributes b) bt), (''children'', inner)]"
  by (simp add: wrapContext_def)

lemma hooks_Uncontrolled: "fst (Uncontrolled e ps) = [settings_call ps, template_call ps]"
  by (simp add: Uncontrolled_def Let_def settings_call_def template_call_def split: option.splits)

lemma hooks_UncontrolledInnerBlocks:
  "getBlock e (js_get ps ''clientId'') \<noteq> None \<Longrightarrow>
   fst (UncontrolledInnerBlocks e ps) = [settings_call ps, template_call ps]"
  by (auto simp add: UncontrolledInnerBlocks_def Let_def select_present settings_call_def
      template_call_def)

lemma hooks_ControlledInnerBlocks:
  "fst (ControlledInnerBlocks e ps) = UseBlockSync ps # fst (UncontrolledInnerBlocks e ps)"
  by (simp add: ControlledInnerBlocks_def split: prod.splits)

text \<open>
  C5. For a block whose type name has no registered descriptor, or whose descriptor declares
  no \<open>providesContext\<close> mapping, both components call their two hooks and return the nested
  list with no context provider around it and no error: \<open>Uncontrolled\<close> returns the bare
  \<open>BlockListItems\<close> element, \<open>UncontrolledInnerBlocks\<close> the \<open>BlockList\<close> element, inside its
  own \<open>div\<close> unless a tag name is given.
\<close>

theorem no_context_scope_without_mapping:
  assumes "getBlock e (js_get ps ''clientId'') = Some b"
      and "getBlockType e (name b) = None \<or>
           (\<exists>bt. getBlockType e (name b) = Some bt \<and> providesContext bt = None)"
  shows "Uncontrolled e ps =
           ([settings_call ps, template_call ps],
            Inr (JElem ''BlockListItems''
                   [(''rootClientId'', js_get ps ''clientId''),
                    (''renderAppender'', js_get ps ''renderAppender''),
                    (''__experimentalAppenderTagName'', js_get ps ''__experimentalAppenderTagName''),
                    (''wrapperRef'', js_get ps ''wrapperRef'')])) \<and>
         (\<exists>bl. bl = JElem ''BlockList''
                 (AList.update ''className''
                    (JStr (classnames
                       [JObj [(''has-overlay'',
                               JBool ((isNavigationMode e \<or> isSmallScreen e) \<and>
                                      overlay_active e (js_get ps ''clientId''))),
                              (''is-capturing-toolbar'',
                               js_get ps ''__experimentalCaptureToolbars'')]]))
                    (AList.update ''rootClientId'' (js_get ps ''clientId'')
                       (AList.update ''ref'' (js_get ps ''forwardedRef'') ps))) \<and>
               UncontrolledInnerBlocks e ps =
                 ([settings_call ps, template_call ps],
                  Inr (if truthy (js_get ps ''__experimentalTagName'') then bl
                       else JElem ''div'' [(''className'', JStr ''block-editor-inner-blocks''),
                                          (''children'', bl)]))) \<and>
         (\<forall>el. snd (Uncontrolled e ps) = Inr el \<longrightarrow> scopes el = []) \<and>
         (\<forall>el. snd (UncontrolledInnerBlocks e ps) = Inr el \<longrightarrow>
            scopes el = (if truthy (js_get ps ''__experimentalTagName'') then [] else [''div'']))"
proof -
  note w = wrapContext_none [OF assms(2)]
  have u: "Uncontrolled e ps =
           ([settings_call ps, template_call ps],
            Inr (JElem ''BlockListItems''
                   [(''rootClientId'', js_get ps ''clientId''),
                    (''renderAppender'', js_get ps ''renderAppender''),
                    (''__experimentalAppenderTagName'', js_get ps ''__experimentalAppenderTagName''),
                    (''wrapperRef'', js_get ps ''wrapperRef'')]))"
    using assms(1) by (simp add: Uncontrolled_def Let_def w settings_call_def template_call_def)
  let ?bl = "JElem ''BlockList''
                 (AList.update ''className''
                    (JStr (classnames
                       [JObj [(''has-overlay'',
                               JBool ((isNavigationMode e \<or> isSmallScreen e) \<and>
                                      overlay_active e (js_get ps ''clientId''))),
                              (''is-capturing-toolbar'',
                               js_get ps ''__experimentalCaptureToolbars'')]]))
                    (AList.update ''rootClientId'' (js_get ps ''clientId'')
                       (AList.update ''ref'' (js_get ps ''forwardedRef'') ps)))"
  have ui: "UncontrolledInnerBlocks e ps =
                 ([settings_call ps, template_call ps],
                  Inr (if truthy (js_get ps ''__experimentalTagName'') then ?bl
                       else JElem ''div'' [(''className'', JStr ''block-editor-inner-blocks''),
                                          (''children'', ?bl)]))"
    using assms(1)
    by (simp add: UncontrolledInnerBlocks_def Let_def select_present overlay_active_def w
        settings_call_def template_call_def)
  have s1: "\<forall>el. snd (Uncontrolled e ps) = Inr el \<longrightarrow> scopes el = []"
    by (simp add: u)
  have s2: "\<forall>el. snd (UncontrolledInnerBlocks e ps) = Inr el \<longrightarrow>
            scopes el = (if truthy (js_get ps ''__experimentalTagName'') then [] else [''div''])"
    by (simp add: ui)
  from ui have "\<exists>bl. bl = ?bl \<and>
               UncontrolledInnerBlocks e ps =
                 ([settings_call ps, template_call ps],
                  Inr (if truthy (js_get ps ''__experimentalTagName'') then bl
                       else JElem ''div'' [(''className'', JStr ''block-editor-inner-blocks''),
                                          (''children'', bl)]))"
    by simp
  with u s1 s2 show ?thesis by (intro conjI)
qed

theorem no_context_scope_without_mapping_witness:
  "getBlock demo_env (js_get [(''clientId'', JStr ''b2'')] ''clientId'')
     = Some (Block ''core/paragraph'' [] []) \<and>
   (\<exists>bt. getBlockType demo_env ''core/paragraph'' = Some bt \<and> providesContext bt = None) \<and>
   snd (Uncontrolled demo_env [(''clientId'', JStr ''b2'')]) =
     Inr (JElem ''BlockListItems''
            [(''rootClientId'', JStr ''b2''), (''renderAppender'', JUndefined),
             (''__experimentalAppenderTagName'', JUndefined), (''wrapperRef'', JUndefined)]) \<and>
   snd (UncontrolledInnerBlocks demo_env [(''clientId'', JStr ''b2'')]) =
     Inr (JElem ''div''
            [(''className'', JStr ''block-editor-inner-blocks''),
             (''children'', JElem ''BlockList''
                [(''clientId'', JStr ''b2''), (''ref'', JUndefined),
                 (''rootClientId'', JStr ''b2''), (''className'', JStr [])])])"
proof -
  let ?ps = "[(''clientId'', JStr ''b2'')]"
  have h1: "getBlock demo_env (js_get ?ps ''clientId'') = Some (Block ''core/paragraph'' [] [])"
    by (simp add: demo_env_def js_get_def)
  have h2: "\<exists>bt. getBlockType demo_env ''core/paragraph'' = Some bt \<and> providesContext bt = None"
    by (simp add: demo_env_def)
  then have h3: "getBlockType demo_env (name (Block ''core/paragraph'' [] [])) = None \<or>
           (\<exists>bt. getBlockType demo_env (name (Block ''core/paragraph'' [] [])) = Some bt \<and>
                 providesContext bt = None)"
    by simp
  note t = no_context_scope_without_mapping [OF h1 h3]
  from t [THEN conjunct1]
  have a: "snd (Uncontrolled demo_env ?ps) =
     Inr (JElem ''BlockListItems''
            [(''rootClientId'', JStr ''b2''), (''renderAppender'', JUndefined),
             (''__experimentalAppenderTagName'', JUndefined), (''wrapperRef'', JUndefined)])"
    by (simp add: js_get_def)
  from t [THEN conjunct2, THEN conjunct1]
  have b: "snd (UncontrolledInnerBlocks demo_env ?ps) =
     Inr (JElem ''div''
            [(''className'', JStr ''block-editor-inner-blocks''),
             (''children'', JElem ''BlockList''
                [(''clientId'', JStr ''b2''), (''ref'', JUndefined),
                 (''rootClientId'', JStr ''b2''), (''className'', JStr [])])])"
    by (simp add: js_get_def classnames_def demo_env_def)
  from h1 h2 a b show ?thesis by (intro conjI)
qed

lemma getBlockContext_fields:
  "providesContext bt = Some pc \<Longrightarrow>
   obj_fields (getBlockContext attrs bt) = map (\<lambda>(a, k). (k, js_get attrs a)) pc"
  by (simp add: getBlockContext_def)

text \<open>
  C6. For a block whose descriptor declares a \<open>providesContext\<close> mapping, the value of the
  context provider around the nested list is the bag with exactly one entry per declared
  (attribute name, context key) pair, in order: the context key with the current value of
  the attribute. Its keys are among the declared context keys, and it is computed from the
  attributes of the render: after an attribute \<open>a\<close> declared for the key \<open>k\<close> is set to
  \<open>v\<close>, the bag has the entry \<open>k \<rightarrow> v\<close>.
\<close>

theorem context_bag_entries:
  assumes "getBlockType e (name b) = Some bt" and "providesContext bt = Some pc"
  shows "\<exists>bag. getBlockContext (attributes b) bt = JObj bag \<and>
           wrapContext e b inner =
             JElem ''BlockContextProvider'' [(''value'', JObj bag), (''children'', inner)] \<and>
           length bag = length pc \<and>
           (\<forall>i < length pc. bag ! i = (snd (pc ! i), js_get (attributes b) (fst (pc ! i)))) \<and>
           fst ` set bag \<subseteq> snd ` set pc \<and>
           (\<forall>a k v. (a, k) \<in> set pc \<longrightarrow>
              (k, v) \<in> set (obj_fields (getBlockContext (AList.update a v (attributes b)) bt)))"
proof -
  let ?bag = "map (\<lambda>(a, k). (k, js_get (attributes b) a)) pc"
  have 1: "getBlockContext (attributes b) bt = JObj ?bag"
    using assms(2) by (simp add: getBlockContext_def)
  have 2: "wrapContext e b inner =
             JElem ''BlockContextProvider'' [(''value'', JObj ?bag), (''children'', inner)]"
    using wrapContext_some [OF assms] 1 by simp
  have 3: "\<forall>i < length pc. ?bag ! i = (snd (pc ! i), js_get (attributes b) (fst (pc ! i)))"
    by (simp add: case_prod_beta)
  have 4: "fst ` set ?bag \<subseteq> snd ` set pc"
    by force
  have 5: "(k, v) \<in> set (obj_fields (getBlockContext (AList.update a v (attributes b)) bt))"
    if "(a, k) \<in> set pc" for a k v
  proof -
    from that
    have "(\<lambda>(a', k'). (k', js_get (AList.update a v (attributes b)) a')) (a, k)
          \<in> (\<lambda>(a', k'). (k', js_get (AList.update a v (attributes b)) a')) ` set pc"
      by (rule imageI)
    then show ?thesis
      by (simp add: getBlockContext_fields [OF assms(2)] js_get_update)
  qed
  from 1 2 3 4 5 show ?thesis by (intro exI [of _ ?bag]) simp
qed

theorem context_bag_entries_witness:
  "getBlockType demo_env ''core/group'' = Some \<lparr> providesContext = Some [(''attrA'', ''ns/keyA'')] \<rparr> \<and>
   getBlockContext [(''attrA'', JStr ''x'')] \<lparr> providesContext = Some [(''attrA'', ''ns/keyA'')] \<rparr>
     = JObj [(''ns/keyA'', JStr ''x'')] \<and>
   (''ns/keyA'', JStr ''y'') \<in> set (obj_fields (getBlockContext
      (AList.update ''attrA'' (JStr ''y'') [(''attrA'', JStr ''x'')])
      \<lparr> providesContext = Some [(''attrA'', ''ns/keyA'')] \<rparr>))"
proof -
  let ?b = "Block ''core/group'' [(''attrA'', JStr ''x'')] []"
  let ?bt = "\<lparr> providesContext = Some [(''attrA'', ''ns/keyA'')] \<rparr>"
  have h1: "getBlockType demo_env (name ?b) = Some ?bt"
    by (simp add: demo_env_def)
  have h2: "providesContext ?bt = Some [(''attrA'', ''ns/keyA'')]"
    by simp
  from context_bag_entries [OF h1 h2, of JNull]
  obtain bag where bag: "getBlockContext (attributes ?b) ?bt = JObj bag"
    "length bag = length [(''attrA'', ''ns/keyA'')]"
    "\<forall>i < length [(''attrA'', ''ns/keyA'')]. bag ! i =
        (snd ([(''attrA'', ''ns/keyA'')] ! i), js_get (attributes ?b) (fst ([(''attrA'', ''ns/keyA'')] ! i)))"
    "\<forall>a k v. (a, k) \<in> set [(''attrA'', ''ns/keyA'')] \<longrightarrow>
        (k, v) \<in> set (obj_fields (getBlockContext (AList.update a v (attributes ?b)) ?bt))"
    by blast
  from bag(2) obtain x where x: "bag = [x]"
    by (cases bag) auto
  from bag(3) x have "x = (''ns/keyA'', JStr ''x'')"
    by (simp add: js_get_def)
  with bag(1) x have a: "getBlockContext [(''attrA'', JStr ''x'')] ?bt = JObj [(''ns/keyA'', JStr ''x'')]"
    by simp
  from bag(4) have c: "(''ns/keyA'', JStr ''y'') \<in> set (obj_fields (getBlockContext
      (AList.update ''attrA'' (JStr ''y'') [(''attrA'', JStr ''x'')]) ?bt))"
    by simp
  from a c h1 show ?thesis by simp
qed

subsection \<open>Order of the effects\<close>

lemma sees_pair:
  "synchronizer_sees eff [settings_call ps, template_call ps] st = Some (eff (settings_call ps) st)"
  by (simp add: synchronizer_sees_def effect_order_def settings_call_def template_call_def)

lemma sees_sync_pair:
  "synchronizer_sees eff [UseBlockSync qs, settings_call ps, template_call ps] st =
     Some (eff (settings_call ps) st)"
  by (simp add: synchronizer_sees_def effect_order_def settings_call_def template_call_def)

lemma commit_pair:
  "commit eff [settings_call ps, template_call ps] st =
     eff (template_call ps) (eff (settings_call ps) st)"
  by (simp add: commit_def effect_order_def settings_call_def template_call_def)

lemma commit_sync_pair:
  "commit eff [UseBlockSync qs, settings_call ps, template_call ps] st =
     eff (UseBlockSync qs) (eff (template_call ps) (eff (settings_call ps) st))"
  by (simp add: commit_def effect_order_def settings_call_def template_call_def)

text \<open>
  C7. Every render of a nested list whose block is in the store calls the settings
  propagator and then the template synchronizer, for the same root id and with the same
  lock, in the one component that calls both; a controlled render calls the block
  synchronization in the component around it. Whatever the effects do, when the render is
  committed the effect of the synchronizer is evaluated in the state that the effect of the
  propagator has just produced from the state before the commit. This holds for the three
  components and for both entry points.
\<close>

theorem settings_before_template_sync:
  "(getBlock e (js_get ps ''clientId'') \<noteq> None \<longrightarrow>
      fst (UncontrolledInnerBlocks e ps) = [settings_call ps, template_call ps] \<and>
      fst (ControlledInnerBlocks e ps) = [UseBlockSync ps, settings_call ps, template_call ps] \<and>
      (\<forall>eff st. synchronizer_sees eff (fst (UncontrolledInnerBlocks e ps)) st =
                  Some (eff (settings_call ps) st) \<and>
                commit eff (fst (UncontrolledInnerBlocks e ps)) st =
                  eff (template_call ps) (eff (settings_call ps) st)) \<and>
      (\<forall>eff st. synchronizer_sees eff (fst (ControlledInnerBlocks e ps)) st =
                  Some (eff (settings_call ps) st) \<and>
                commit eff (fst (ControlledInnerBlocks e ps)) st =
                  eff (UseBlockSync ps) (eff (template_call ps) (eff (settings_call ps) st)))) \<and>
   fst (Uncontrolled e ps) = [settings_call ps, template_call ps] \<and>
   (\<forall>eff st. synchronizer_sees eff (fst (Uncontrolled e ps)) st =
               Some (eff (settings_call ps) st) \<and>
             commit eff (fst (Uncontrolled e ps)) st =
               eff (template_call ps) (eff (settings_call ps) st)) \<and>
   (getBlock e (js_get (spread [(''clientId'', contextClientId e),
                                (''forwardedRef'', js_or ref (fallbackRef e))] ps)
                  ''clientId'') \<noteq> None \<longrightarrow>
      (\<forall>eff st. synchronizer_sees eff (fst (ForwardedInnerBlocks e ps ref)) st =
                  Some (eff (settings_call
                               (spread [(''clientId'', contextClientId e),
                                        (''forwardedRef'', js_or ref (fallbackRef e))] ps)) st))) \<and>
   ((controlled (InnerBlocks e ps) \<longrightarrow> getBlock e (contextClientId e) \<noteq> None) \<longrightarrow>
      (\<forall>eff st. synchronizer_sees eff (fst (InnerBlocks e ps)) st =
                  Some (eff (settings_call
                               (AList.update ''clientId'' (contextClientId e) ps)) st)))"
proof -
  have ui: "fst (UncontrolledInnerBlocks e' qs) = [settings_call qs, template_call qs]"
    and ci: "fst (ControlledInnerBlocks e' qs) = [UseBlockSync qs, settings_call qs, template_call qs]"
    if "getBlock e' (js_get qs ''clientId'') \<noteq> None" for e' qs
    using that by (simp_all add: hooks_ControlledInnerBlocks hooks_UncontrolledInnerBlocks)
  have p1: "getBlock e (js_get ps ''clientId'') \<noteq> None \<longrightarrow>
      fst (UncontrolledInnerBlocks e ps) = [settings_call ps, template_call ps] \<and>
      fst (ControlledInnerBlocks e ps) = [UseBlockSync ps, settings_call ps, template_call ps] \<and>
      (\<forall>eff st. synchronizer_sees eff (fst (UncontrolledInnerBlocks e ps)) st =
                  Some (eff (settings_call ps) st) \<and>
                commit eff (fst (UncontrolledInnerBlocks e ps)) st =
                  eff (template_call ps) (eff (settings_call ps) st)) \<and>
      (\<forall>eff st. synchronizer_sees eff (fst (ControlledInnerBlocks e ps)) st =
                  Some (eff (settings_call ps) st) \<and>
                commit eff (fst (ControlledInnerBlocks e ps)) st =
                  eff (UseBlockSync ps) (eff (template_call ps) (eff (settings_call ps) st)))"
    by (simp add: ui ci sees_pair sees_sync_pair commit_pair commit_sync_pair)
  have p2: "fst (Uncontrolled e ps) = [settings_call ps, template_call ps]"
    by (rule hooks_Uncontrolled)
  have p3: "\<forall>eff st. synchronizer_sees eff (fst (Uncontrolled e ps)) st =
               Some (eff (settings_call ps) st) \<and>
             commit eff (fst (Uncontrolled e ps)) st =
               eff (template_call ps) (eff (settings_call ps) st)"
    by (simp add: hooks_Uncontrolled sees_pair commit_pair)
  have p4: "getBlock e (js_get (spread [(''clientId'', contextClientId e),
                                (''forwardedRef'', js_or ref (fallbackRef e))] ps)
                  ''clientId'') \<noteq> None \<longrightarrow>
      (\<forall>eff st. synchronizer_sees eff (fst (ForwardedInnerBlocks e ps ref)) st =
                  Some (eff (settings_call
                               (spread [(''clientId'', contextClientId e),
                                        (''forwardedRef'', js_or ref (fallbackRef e))] ps)) st))"
    by (simp add: ForwardedInnerBlocks_def Let_def ui ci sees_pair sees_sync_pair)
  have p5: "(controlled (InnerBlocks e ps) \<longrightarrow> getBlock e (contextClientId e) \<noteq> None) \<longrightarrow>
      (\<forall>eff st. synchronizer_sees eff (fst (InnerBlocks e ps)) st =
                  Some (eff (settings_call
                               (AList.update ''clientId'' (contextClientId e) ps)) st))"
  proof (cases "truthy (js_get ps ''value'') \<and> truthy (js_get ps ''onChange'')")
    case True
    then have ctl: "controlled (InnerBlocks e ps)"
      by (simp add: controlled_InnerBlocks)
    from True have eq: "InnerBlocks e ps =
        ControlledInnerBlocks e (AList.update ''clientId'' (contextClientId e) ps)"
      by (simp add: InnerBlocks_def Let_def truthy_js_and)
    show ?thesis
    proof
      assume "controlled (InnerBlocks e ps) \<longrightarrow> getBlock e (contextClientId e) \<noteq> None"
      with ctl have g: "getBlock e (js_get (AList.update ''clientId'' (contextClientId e) ps)
          ''clientId'') \<noteq> None"
        by (simp add: js_get_update)
      show "\<forall>eff st. synchronizer_sees eff (fst (InnerBlocks e ps)) st =
                  Some (eff (settings_call
                               (AList.update ''clientId'' (contextClientId e) ps)) st)"
        by (simp add: eq ci [OF g] sees_sync_pair)
    qed
  next
    case False
    then have eq: "InnerBlocks e ps =
        Uncontrolled e (AList.update ''clientId'' (contextClientId e) ps)"
      by (auto simp add: InnerBlocks_def Let_def truthy_js_and)
    show ?thesis
      by (simp add: eq hooks_Uncontrolled sees_pair)
  qed
  from p1 p2 p3 p4 p5 show ?thesis by (intro conjI)
qed

theorem settings_before_template_sync_witness:
  "getBlock demo_env (js_get [(''clientId'', JStr ''b1'')] ''clientId'') \<noteq> None \<and>
   fst (ControlledInnerBlocks demo_env [(''clientId'', JStr ''b1'')]) =
     [UseBlockSync [(''clientId'', JStr ''b1'')],
      UseNestedSettingsUpdate (JStr ''b1'') JUndefined JUndefined JUndefined JUndefined,
      UseInnerBlockTemplateSync (JStr ''b1'') JUndefined JUndefined JUndefined] \<and>
   synchronizer_sees (\<lambda>h st. st @ [h])
       (fst (ControlledInnerBlocks demo_env [(''clientId'', JStr ''b1'')])) [] =
     Some [UseNestedSettingsUpdate (JStr ''b1'') JUndefined JUndefined JUndefined JUndefined] \<and>
   commit (\<lambda>h st. st @ [h])
       (fst (ControlledInnerBlocks demo_env [(''clientId'', JStr ''b1'')])) [] =
     [UseNestedSettingsUpdate (JStr ''b1'') JUndefined JUndefined JUndefined JUndefined,
      UseInnerBlockTemplateSync (JStr ''b1'') JUndefined JUndefined JUndefined,
      UseBlockSync [(''clientId'', JStr ''b1'')]] \<and>
   synchronizer_sees (\<lambda>h st. st @ [h])
       (fst (ForwardedInnerBlocks demo_env [(''clientId'', JStr ''b1'')] JNull)) [] =
     Some [UseNestedSettingsUpdate (JStr ''b1'') JUndefined JUndefined JUndefined JUndefined] \<and>
   synchronizer_sees (\<lambda>h st. st @ [h])
       (fst (InnerBlocks demo_env [(''clientId'', JStr ''b1'')])) [] =
     Some [UseNestedSettingsUpdate (JStr ''b1'') JUndefined JUndefined JUndefined JUndefined]"
proof -
  let ?ps = "[(''clientId'', JStr ''b1'')]"
  let ?all = "spread [(''clientId'', contextClientId demo_env),
                      (''forwardedRef'', js_or JNull (fallbackRef demo_env))] ?ps"
  let ?log = "\<lambda>h st. st @ [h :: hook_call]"
  note t = settings_before_template_sync [of demo_env ?ps JNull]
  have h1: "getBlock demo_env (js_get ?ps ''clientId'') \<noteq> None"
    by (simp add: demo_env_def js_get_def)
  have h2: "getBlock demo_env (js_get ?all ''clientId'') \<noteq> None"
    by (simp add: demo_env_def js_get_def spread_def)
  have h3: "controlled (InnerBlocks demo_env ?ps) \<longrightarrow>
            getBlock demo_env (contextClientId demo_env) \<noteq> None"
    by (simp add: demo_env_def)
  have sc: "settings_call ?ps =
      UseNestedSettingsUpdate (JStr ''b1'') JUndefined JUndefined JUndefined JUndefined"
    "settings_call ?all =
      UseNestedSettingsUpdate (JStr ''b1'') JUndefined JUndefined JUndefined JUndefined"
    "settings_call (AList.update ''clientId'' (contextClientId demo_env) ?ps) =
      UseNestedSettingsUpdate (JStr ''b1'') JUndefined JUndefined JUndefined JUndefined"
    "template_call ?ps = UseInnerBlockTemplateSync (JStr ''b1'') JUndefined JUndefined JUndefined"
    by (simp_all add: settings_call_def template_call_def js_get_def spread_def demo_env_def)
  note c = t [THEN conjunct1, THEN mp, OF h1]
  from c [THEN conjunct2, THEN conjunct1]
  have a1: "fst (ControlledInnerBlocks demo_env ?ps) =
     [UseBlockSync ?ps,
      UseNestedSettingsUpdate (JStr ''b1'') JUndefined JUndefined JUndefined JUndefined,
      UseInnerBlockTemplateSync (JStr ''b1'') JUndefined JUndefined JUndefined]"
    by (simp add: sc)
  from c [THEN conjunct2, THEN conjunct2, THEN conjunct2, THEN spec, THEN spec, of ?log "[]"]
  have a2: "synchronizer_sees ?log (fst (ControlledInnerBlocks demo_env ?ps)) [] =
     Some [UseNestedSettingsUpdate (JStr ''b1'') JUndefined JUndefined JUndefined JUndefined]"
    and a3: "commit ?log (fst (ControlledInnerBlocks demo_env ?ps)) [] =
     [UseNestedSettingsUpdate (JStr ''b1'') JUndefined JUndefined JUndefined JUndefined,
      UseInnerBlockTemplateSync (JStr ''b1'') JUndefined JUndefined JUndefined,
      UseBlockSync ?ps]"
    by (simp_all add: sc)
  from t [THEN conjunct2, THEN conjunct2, THEN conjunct2, THEN conjunct1, THEN mp, OF h2,
      THEN spec, THEN spec, of ?log "[]"]
  have a4: "synchronizer_sees ?log (fst (ForwardedInnerBlocks demo_env ?ps JNull)) [] =
     Some [UseNestedSettingsUpdate (JStr ''b1'') JUndefined JUndefined JUndefined JUndefined]"
    by (simp add: sc)
  from t [THEN conjunct2, THEN conjunct2, THEN conjunct2, THEN conjunct2, THEN mp, OF h3,
      THEN spec, THEN spec, of ?log "[]"]
  have a5: "synchronizer_sees ?log (fst (InnerBlocks demo_env ?ps)) [] =
     Some [UseNestedSettingsUpdate (JStr ''b1'') JUndefined JUndefined JUndefined JUndefined]"
    by (simp add: settings_call_def js_get_def demo_env_def)
  from h1 a1 a2 a3 a4 a5 show ?thesis by (intro conjI)
qed

subsection \<open>Synthesis from a template\<close>

lemma matches_synthesize: "matches (synthesize t) t"
proof (induction t)
  case (TemplateNode n attrs ts)
  then have "list_all2 matches (map synthesize ts) ts"
    by (simp add: list_all2_map1 list_all2_same)
  then show ?case by simp
qed

lemma templateSync_keeps_children:
  assumes "innerList s \<noteq> []"
      and "existingTemplate s = None \<or> existingTemplate s = Some t"
  shows "innerList (templateSync (Some t) lock s) = innerList s \<and>
         dispatched (templateSync (Some t) lock s) = dispatched s \<and>
         (existingTemplate (templateSync (Some t) lock s) = None \<or>
          existingTemplate (templateSync (Some t) lock s) = Some t)"
  using assms by (auto simp add: templateSync_def)

lemma lifecycle_step_keeps_children:
  assumes "innerList s \<noteq> []"
      and "existingTemplate s = None \<or> existingTemplate s = Some t"
  shows "innerList (lifecycle_step (Some t) lock ev s) = innerList s \<and>
         dispatched (lifecycle_step (Some t) lock ev s) = dispatched s \<and>
         (existingTemplate (lifecycle_step (Some t) lock ev s) = None \<or>
          existingTemplate (lifecycle_step (Some t) lock ev s) = Some t)"
proof (cases ev)
  case Mount
  have "innerList (s\<lparr> existingTemplate := None \<rparr>) \<noteq> []"
    "existingTemplate (s\<lparr> existingTemplate := None \<rparr>) = None \<or>
     existingTemplate (s\<lparr> existingTemplate := None \<rparr>) = Some t"
    using assms(1) by simp_all
  from templateSync_keeps_children [OF this] Mount show ?thesis by simp
next
  case Rerender
  with templateSync_keeps_children [OF assms] show ?thesis by simp
qed

lemma lifecycle_run_keeps_children:
  "innerList s \<noteq> [] \<Longrightarrow>
   existingTemplate s = None \<or> existingTemplate s = Some t \<Longrightarrow>
   innerList (lifecycle_run (Some t) lock evs s) = innerList s \<and>
   dispatched (lifecycle_run (Some t) lock evs s) = dispatched s"
proof (induction evs arbitrary: s)
  case Nil
  show ?case by (simp add: lifecycle_run_def)
next
  case (Cons ev evs)
  note step = lifecycle_step_keeps_children [OF Cons.prems, of lock ev]
  from step Cons.prems(1) have "innerList (lifecycle_step (Some t) lock ev s) \<noteq> []"
    by simp
  from Cons.IH [OF this] step show ?case
    by (simp add: lifecycle_run_def)
qed

text \<open>
  C8. A root id mounted without children and with a non-empty template gets the children
  synthesized from the template, which match it, in one write to the store; whatever
  mounts and re-renders with the same template and lock follow, the children stay and
  nothing more is written. A root id that has children when it is first encountered keeps
  them through the mount and every later mount and re-render with the same template and
  lock, and nothing is written.
\<close>

theorem template_synthesized_once:
  "(t \<noteq> [] \<and> innerList s = [] \<longrightarrow>
      innerList (lifecycle_run (Some t) lock (Mount # evs) s) = map synthesize t \<and>
      list_all2 matches (innerList (lifecycle_run (Some t) lock (Mount # evs) s)) t \<and>
      dispatched (lifecycle_run (Some t) lock (Mount # evs) s) = Suc (dispatched s)) \<and>
   (innerList s \<noteq> [] \<longrightarrow>
      innerList (lifecycle_run (Some t) lock (Mount # evs) s) = innerList s \<and>
      dispatched (lifecycle_run (Some t) lock (Mount # evs) s) = dispatched s)"
proof (intro conjI impI)
  assume a: "t \<noteq> [] \<and> innerList s = []"
  let ?s1 = "lifecycle_step (Some t) lock Mount s"
  from a have s1: "innerList ?s1 = map synthesize t" "dispatched ?s1 = Suc (dispatched s)"
    "existingTemplate ?s1 = Some t"
    by (simp_all add: templateSync_def)
  from a s1 have "innerList ?s1 \<noteq> []" by simp
  from lifecycle_run_keeps_children [OF this, of t lock evs] s1
  have r: "innerList (lifecycle_run (Some t) lock (Mount # evs) s) = map synthesize t"
    "dispatched (lifecycle_run (Some t) lock (Mount # evs) s) = Suc (dispatched s)"
    by (simp_all add: lifecycle_run_def)
  show "innerList (lifecycle_run (Some t) lock (Mount # evs) s) = map synthesize t"
    by (rule r(1))
  show "list_all2 matches (innerList (lifecycle_run (Some t) lock (Mount # evs) s)) t"
    by (simp add: r(1) list_all2_map1 list_all2_same matches_synthesize)
  show "dispatched (lifecycle_run (Some t) lock (Mount # evs) s) = Suc (dispatched s)"
    by (rule r(2))
next
  assume a: "innerList s \<noteq> []"
  let ?s1 = "lifecycle_step (Some t) lock Mount s"
  from a have s1: "innerList ?s1 = innerList s" "dispatched ?s1 = dispatched s"
    "existingTemplate ?s1 = None \<or> existingTemplate ?s1 = Some t"
    by (simp_all add: templateSync_def)
  from a s1 have "innerList ?s1 \<noteq> []" by simp
  from lifecycle_run_keeps_children [OF this s1(3), of lock evs] s1(1,2)
  show "innerList (lifecycle_run (Some t) lock (Mount # evs) s) = innerList s"
    and "dispatched (lifecycle_run (Some t) lock (Mount # evs) s) = dispatched s"
    by (simp_all add: lifecycle_run_def)
qed

theorem template_synthesized_once_witness:
  "innerList (lifecycle_run (Some [TemplateNode ''core/column'' [] []]) (Some LockAll)
      [Mount, Rerender, Mount]
      \<lparr> existingTemplate = None, innerList = [], dispatched = 0 \<rparr>)
     = [Block ''core/column'' [] []] \<and>
   dispatched (lifecycle_run (Some [TemplateNode ''core/column'' [] []]) (Some LockAll)
      [Mount, Rerender, Mount]
      \<lparr> existingTemplate = None, innerList = [], dispatched = 0 \<rparr>) = 1 \<and>
   innerList (lifecycle_run (Some [TemplateNode ''core/column'' [] []]) (Some LockAll)
      [Mount, Rerender, Mount]
      \<lparr> existingTemplate = None, innerList = [Block ''core/paragraph'' [] []], dispatched = 0 \<rparr>)
     = [Block ''core/paragraph'' [] []] \<and>
   dispatched (lifecycle_run (Some [TemplateNode ''core/column'' [] []]) (Some LockAll)
      [Mount, Rerender, Mount]
      \<lparr> existingTemplate = None, innerList = [Block ''core/paragraph'' [] []], dispatched = 0 \<rparr>) = 0"
proof -
  let ?t = "[TemplateNode ''core/column'' [] []]"
  let ?s0 = "\<lparr> existingTemplate = None, innerList = [], dispatched = 0 \<rparr>"
  let ?s1 = "\<lparr> existingTemplate = None, innerList = [Block ''core/paragraph'' [] []],
               dispatched = 0 \<rparr>"
  have h0: "?t \<noteq> [] \<and> innerList ?s0 = []" by simp
  have h1: "innerList ?s1 \<noteq> []" by simp
  note a = template_synthesized_once [of ?t ?s0 "Some LockAll" "[Rerender, Mount]",
      THEN conjunct1, THEN mp, OF h0]
  note b = template_synthesized_once [of ?t ?s1 "Some LockAll" "[Rerender, Mount]",
      THEN conjunct2, THEN mp, OF h1]
  from a have a1: "innerList (lifecycle_run (Some ?t) (Some LockAll) [Mount, Rerender, Mount] ?s0)
      = [Block ''core/column'' [] []]"
    and a2: "dispatched (lifecycle_run (Some ?t) (Some LockAll) [Mount, Rerender, Mount] ?s0) = 1"
    by simp_all
  from b have b1: "innerList (lifecycle_run (Some ?t) (Some LockAll) [Mount, Rerender, Mount] ?s1)
      = [Block ''core/paragraph'' [] []]"
    and b2: "dispatched (lifecycle_run (Some ?t) (Some LockAll) [Mount, Rerender, Mount] ?s1) = 0"
    by simp_all
  from a1 a2 b1 b2 show ?thesis by (intro conjI)
qed

subsection \<open>The props-merging entry point\<close>

lemma className_useInnerBlocksProps:
  "js_get (useInnerBlocksProps e ps options) ''className'' =
     JStr (classnames [js_get ps ''className'', JStr ''block-editor-block-list__layout'',
                       JObj [(''has-overlay'', JBool (useInnerBlocksProps_hasOverlay e))]])"
  by (simp add: useInnerBlocksProps_def Let_def js_get_update)

lemma ref_useInnerBlocksProps:
  "js_get (useInnerBlocksProps e ps options) ''ref'' = js_or (js_get ps ''ref'') (fallbackRef e)"
  by (simp add: useInnerBlocksProps_def Let_def js_get_update)

lemma children_useInnerBlocksProps:
  "js_get (useInnerBlocksProps e ps options) ''children'' =
     JElem ''InnerBlocks''
       (AList.update ''wrapperRef'' (js_or (js_get ps ''ref'') (fallbackRef e)) options)"
  by (simp add: useInnerBlocksProps_def Let_def js_get_update)

lemma frame_useInnerBlocksProps:
  "k \<noteq> ''ref'' \<Longrightarrow> k \<noteq> ''className'' \<Longrightarrow> k \<noteq> ''children'' \<Longrightarrow>
   map_of (useInnerBlocksProps e ps options) k = map_of ps k"
  by (simp add: useInnerBlocksProps_def Let_def update_conv')

text \<open>
  C10. For every props object and options, every field of the object that
  \<open>useInnerBlocksProps\<close> returns, other than \<open>ref\<close>, \<open>className\<close> and \<open>children\<close>, is
  the field of the input, unchanged. The returned \<open>ref\<close> is the caller's when the caller
  supplies one (a ref is an object or a function, hence truthy) and the fallback ref
  otherwise; the returned \<open>children\<close> is the \<open>InnerBlocks\<close> element with the options and
  that ref as \<open>wrapperRef\<close>; the returned \<open>className\<close> always has the class
  \<open>block-editor-block-list__layout\<close>, beside every class of the caller's class name.
\<close>

theorem useInnerBlocksProps_frame:
  "(\<forall>k. k \<notin> {''ref'', ''className'', ''children''} \<longrightarrow>
        map_of (useInnerBlocksProps e ps options) k = map_of ps k) \<and>
   (truthy (js_get ps ''ref'') \<longrightarrow>
      js_get (useInnerBlocksProps e ps options) ''ref'' = js_get ps ''ref'') \<and>
   (\<not> truthy (js_get ps ''ref'') \<longrightarrow>
      js_get (useInnerBlocksProps e ps options) ''ref'' = fallbackRef e) \<and>
   js_get (useInnerBlocksProps e ps options) ''children'' =
     JElem ''InnerBlocks''
       (AList.update ''wrapperRef'' (js_get (useInnerBlocksProps e ps options) ''ref'') options) \<and>
   (\<exists>c. js_get (useInnerBlocksProps e ps options) ''className'' = JStr c \<and>
        ''block-editor-block-list__layout'' \<in> set (class_tokens c) \<and>
        (\<forall>s. js_get ps ''className'' = JStr s \<longrightarrow>
           set (class_tokens s) \<subseteq> set (class_tokens c)))"
proof -
  let ?c = "classnames [js_get ps ''className'', JStr ''block-editor-block-list__layout'',
                       JObj [(''has-overlay'', JBool (useInnerBlocksProps_hasOverlay e))]]"
  have layout: "''block-editor-block-list__layout'' \<in> set (class_tokens ?c)"
    by (simp add: class_tokens_classnames class_tokens_layout)
  have caller: "set (class_tokens s) \<subseteq> set (class_tokens ?c)"
    if "js_get ps ''className'' = JStr s" for s
  proof (cases "s = []")
    case True
    then show ?thesis by (simp add: class_tokens_def)
  next
    case False
    with that show ?thesis by (simp add: class_tokens_classnames)
  qed
  have cls: "\<exists>c. js_get (useInnerBlocksProps e ps options) ''className'' = JStr c \<and>
        ''block-editor-block-list__layout'' \<in> set (class_tokens c) \<and>
        (\<forall>s. js_get ps ''className'' = JStr s \<longrightarrow>
           set (class_tokens s) \<subseteq> set (class_tokens c))"
  proof (intro exI conjI allI impI)
    show "js_get (useInnerBlocksProps e ps options) ''className'' = JStr ?c"
      by (rule className_useInnerBlocksProps)
    show "''block-editor-block-list__layout'' \<in> set (class_tokens ?c)"
      by (rule layout)
    show "set (class_tokens s) \<subseteq> set (class_tokens ?c)"
      if "js_get ps ''className'' = JStr s" for s
      using that by (rule caller)
  qed
  have frame: "\<forall>k. k \<notin> {''ref'', ''className'', ''children''} \<longrightarrow>
        map_of (useInnerBlocksProps e ps options) k = map_of ps k"
    by (simp add: frame_useInnerBlocksProps)
  have ref1: "truthy (js_get ps ''ref'') \<longrightarrow>
      js_get (useInnerBlocksProps e ps options) ''ref'' = js_get ps ''ref''"
    and ref2: "\<not> truthy (js_get ps ''ref'') \<longrightarrow>
      js_get (useInnerBlocksProps e ps options) ''ref'' = fallbackRef e"
    by (simp_all add: ref_useInnerBlocksProps js_or_def)
  have ch: "js_get (useInnerBlocksProps e ps options) ''children'' =
     JElem ''InnerBlocks''
       (AList.update ''wrapperRef'' (js_get (useInnerBlocksProps e ps options) ''ref'') options)"
    by (simp only: children_useInnerBlocksProps ref_useInnerBlocksProps)
  from frame ref1 ref2 ch cls show ?thesis by (intro conjI)
qed

theorem useInnerBlocksProps_frame_witness:
  "truthy (js_get [(''ref'', JObj [(''current'', JNull)]), (''className'', JStr ''wp-block-group''),
                   (''id'', JStr ''main'')] ''ref'') \<and>
   js_get (useInnerBlocksProps demo_env
      [(''ref'', JObj [(''current'', JNull)]), (''className'', JStr ''wp-block-group''),
       (''id'', JStr ''main'')] []) ''ref'' = JObj [(''current'', JNull)] \<and>
   map_of (useInnerBlocksProps demo_env
      [(''ref'', JObj [(''current'', JNull)]), (''className'', JStr ''wp-block-group''),
       (''id'', JStr ''main'')] []) ''id'' = Some (JStr ''main'')"
proof -
  let ?ps = "[(''ref'', JObj [(''current'', JNull)]), (''className'', JStr ''wp-block-group''),
              (''id'', JStr ''main'')]"
  note t = useInnerBlocksProps_frame [of demo_env ?ps "[]"]
  have h: "truthy (js_get ?ps ''ref'')" by (simp add: js_get_def)
  have g: "js_get ?ps ''ref'' = JObj [(''current'', JNull)]" by (simp add: js_get_def)
  have k: "''id'' \<notin> {''ref'', ''className'', ''children''}" by simp
  from t [THEN conjunct1, rule_format, OF k]
  have "map_of (useInnerBlocksProps demo_env ?ps []) ''id'' = map_of ?ps ''id''" .
  then have a: "map_of (useInnerBlocksProps demo_env ?ps []) ''id'' = Some (JStr ''main'')"
    by simp
  from t [THEN conjunct2, THEN conjunct1, rule_format, OF h]
  have "js_get (useInnerBlocksProps demo_env ?ps []) ''ref'' = js_get ?ps ''ref''" .
  with g have b: "js_get (useInnerBlocksProps demo_env ?ps []) ''ref'' = JObj [(''current'', JNull)]"
    by simp
  from h b a show ?thesis by (intro conjI)
qed

end
